theory Spec2Isabelle
  imports Main "HOL-Library.Char_ord" "HOL-Library.List_Lexorder" "HOL-Library.Sublist"
begin

section \<open>The README generator of react-ui-roundup\<close>

text \<open>
  A shallow embedding of \<^verbatim>\<open>src/markdown/generate-readme.ts\<close>. The registries the
  source reads as module-level constants (\<^verbatim>\<open>frameworks\<close>, \<^verbatim>\<open>componentInfo\<close>,
  \<^verbatim>\<open>frameworkInfo\<close>) are explicit arguments here. JavaScript strings are HOL strings;
  \<^verbatim>\<open>undefined\<close> is \<open>None\<close>.
\<close>

subsection \<open>Entities\<close>

text \<open>
  The fields of \<^verbatim>\<open>Component\<close> and \<^verbatim>\<open>Framework\<close> that the generator reads. The type
  \<open>'v\<close> is the type of raw option values, \<open>'f\<close> that of raw framework feature values.
  The object \<^verbatim>\<open>options\<close> is a map from option ids to values.
\<close>

record 'v component =
  componentId :: string
  componentName :: string
  componentURL :: string
  options :: "string \<rightharpoonup> 'v"

text \<open>
  \<^verbatim>\<open>EnhancedComponent = Component & Pick<Framework, 'frameworkName' | 'frameworkId'>\<close>
  (line 92). The two picked fields carry the prefix \<open>e_\<close> to keep them apart from the
  fields of the framework record.
\<close>

record 'v enhancedComponent = "'v component" +
  e_frameworkId :: string
  e_frameworkName :: string

record ('v, 'f) framework =
  frameworkId :: string
  frameworkName :: string
  frameworkHomepage :: string
  repoURL :: string
  components :: "'v component list"
  frameworkFeaturesById :: "string \<rightharpoonup> 'f"

text \<open>
  An entry of \<^verbatim>\<open>optionsById\<close>: the source reads its \<^verbatim>\<open>optionId\<close>, \<^verbatim>\<open>name\<close>,
  \<^verbatim>\<open>criteria\<close> and \<^verbatim>\<open>toMarkdown\<close> (fields \<open>o_name\<close>, \<open>o_criteria\<close>, \<open>o_toMarkdown\<close>).
  \<^verbatim>\<open>toMarkdown\<close> is applied to \<^verbatim>\<open>options[optionId]\<close>, which may be undefined.
\<close>

record 'v optionInfo =
  optionId :: string
  o_name :: string
  o_criteria :: string
  o_toMarkdown :: "'v option \<Rightarrow> string"

text \<open>\<^verbatim>\<open>description\<close> is a string or an object with a \<^verbatim>\<open>markdown\<close> field (line 165).\<close>

datatype description = Plain string | Rich (markdown: string)

text \<open>
  An entry of \<^verbatim>\<open>componentInfo\<close>, the component descriptor. Its \<^verbatim>\<open>componentId\<close> is the
  field \<open>d_componentId\<close>. The object \<^verbatim>\<open>optionsById\<close> is the list of its entries in
  enumeration order.
\<close>

record 'v componentDescriptor =
  d_componentId :: string
  cannonicalName :: string
  description :: description
  indefiniteArticle :: string
  optionsById :: "(string \<times> 'v optionInfo) list"

text \<open>
  An entry of \<^verbatim>\<open>frameworkInfo\<close>: \<^verbatim>\<open>featureId\<close>, \<^verbatim>\<open>name\<close>, \<^verbatim>\<open>criteria\<close>,
  \<^verbatim>\<open>toMarkdown\<close> (fields \<open>f_name\<close>, \<open>f_criteria\<close>, \<open>f_toMarkdown\<close>).
\<close>

record 'f featureInfo =
  featureId :: string
  f_name :: string
  f_criteria :: string
  f_toMarkdown :: "'f option \<Rightarrow> string"

text \<open>
  What \<^verbatim>\<open>getRepoInfo\<close> resolves to, as far as the generator reads it. Every field is
  read through optional chaining, so each may be absent.
\<close>

record licenseInfo =
  l_name :: "string option"

record repoStats =
  html_url :: string
  stargazers_count :: "nat option"
  forks_count :: "nat option"
  open_issues_count :: "nat option"
  license :: "licenseInfo option"

subsection \<open>Helpers that are not among the sources\<close>

text \<open>
  \<^verbatim>\<open>./utils\<close> (the markup builder) and \<^verbatim>\<open>../utils\<close> are imported by the generator but
  are not part of the sources, and the specification does not fix what their functions
  print. They are parameters: a record of the functions and constants the generator
  calls. \<open>link\<close> takes the \<^verbatim>\<open>text\<close> and the \<^verbatim>\<open>href\<close> of its argument object, in this
  order. \<open>renderTable\<close> is what \<^verbatim>\<open>table\<close> returns for a well-formed table.
  The record also holds the two values of the JavaScript runtime that depend on locale
  and clock: \<^verbatim>\<open>Number.prototype.toLocaleString\<close> and \<^verbatim>\<open>new Date().toUTCString()\<close>.
\<close>

record 'v env =
  h1 :: "string \<Rightarrow> string"
  h2 :: "string \<Rightarrow> string"
  p :: "string \<Rightarrow> string"
  quote :: "string \<Rightarrow> string"
  inlineCode :: "string \<Rightarrow> string"
  link :: "string \<Rightarrow> string \<Rightarrow> string"
  criteria :: "(string \<times> string) list \<Rightarrow> string"
  renderTable :: "string list \<Rightarrow> string list list \<Rightarrow> string"
  website :: string
  websiteHref :: string
  removeProtocol :: "string \<Rightarrow> string"
  noValue :: string
  toStablePairs :: "(string \<times> 'v optionInfo) list \<Rightarrow> (string \<times> 'v optionInfo) list"
  issueURL :: string
  toLocaleString :: "nat \<Rightarrow> string"
  toUTCString :: string

datatype error = MalformedRow

text \<open>
  Modelled from the spec: \<^verbatim>\<open>table\<close> of \<^verbatim>\<open>./utils\<close> is not among the sources. Section
  4.1 requires every row to have exactly the length of the headers, and section 7 makes a
  row of another length fail fast. The text of a well-formed table is the parameter
  \<open>renderTable\<close>.
\<close>

definition table :: "'v env \<Rightarrow> string list \<Rightarrow> string list list \<Rightarrow> error + string" where
  "table u headers rows =
     (if list_all (\<lambda>row. length row = length headers) rows
      then Inr (renderTable u headers rows) else Inl MalformedRow)"

fun joinWith :: "'a list \<Rightarrow> 'a list list \<Rightarrow> 'a list" where
  "joinWith sep [] = []"
| "joinWith sep [x] = x"
| "joinWith sep (x # y # ys) = x @ sep @ joinWith sep (y # ys)"

text \<open>
  Modelled from the spec: \<^verbatim>\<open>lines\<close> of \<^verbatim>\<open>./utils\<close> is not among the sources. Section
  4.1: it joins the blocks with a single separating blank line, and blocks of empty
  content are dropped entirely. Every call in the generator passes a flat list of strings.
\<close>

definition lines :: "string list \<Rightarrow> string" where
  "lines blocks = joinWith ''\<newline>\<newline>'' (filter (\<lambda>b. b \<noteq> []) blocks)"

subsection \<open>Library functions\<close>

text \<open>
  Ramda's \<^verbatim>\<open>map\<close>, \<^verbatim>\<open>filter\<close> and \<^verbatim>\<open>pluck\<close> are \<open>map\<close> and \<open>filter\<close>;
  \<^verbatim>\<open>chain f\<close> is \<open>concat \<circ> map f\<close>; \<^verbatim>\<open>reject q\<close> is \<open>filter (Not \<circ> q)\<close>;
  \<^verbatim>\<open>includes x xs\<close> is \<open>x \<in> set xs\<close>; \<^verbatim>\<open>append x xs\<close> is \<open>xs @ [x]\<close>;
  \<^verbatim>\<open>whereEq({componentId})\<close> tests the field for equality; \<^verbatim>\<open>pipe\<close> is composition,
  written with \<open>let\<close>.
\<close>

fun intersperse :: "'a \<Rightarrow> 'a list \<Rightarrow> 'a list" where
  "intersperse sep [] = []"
| "intersperse sep [x] = [x]"
| "intersperse sep (x # y # ys) = x # sep # intersperse sep (y # ys)"

text \<open>
  \<^verbatim>\<open>update(idx, x, list)\<close> for an index that is not negative: a copy with the element at
  \<^verbatim>\<open>idx\<close> replaced, and the list unchanged when \<^verbatim>\<open>idx\<close> is out of range.
\<close>

definition update :: "nat \<Rightarrow> 'a \<Rightarrow> 'a list \<Rightarrow> 'a list" where
  "update idx x xs = (if idx < length xs then xs[idx := x] else xs)"

text \<open>\<^verbatim>\<open>values\<close> of an object: the values of its entries in enumeration order.\<close>

definition values' :: "(string \<times> 'a) list \<Rightarrow> 'a list" where
  "values' obj = map snd obj"

text \<open>
  \<^verbatim>\<open>sortBy\<close> sorts stably by the key, which here is a string compared with \<^verbatim>\<open><\<close>:
  the lexicographic order of the code units.
\<close>

definition sortBy :: "('a \<Rightarrow> string) \<Rightarrow> 'a list \<Rightarrow> 'a list" where
  "sortBy f xs = sort_key f xs"

text \<open>\<^verbatim>\<open>concatAll\<close> of ramda-adjunct returns \<^verbatim>\<open>undefined\<close> for the empty list.\<close>

definition concatAll :: "string list \<Rightarrow> string option" where
  "concatAll xs = (if xs = [] then None else Some (concat xs))"

text \<open>\<^verbatim>\<open>compact\<close> of ramda-adjunct drops the absent results.\<close>

fun compact :: "'a option list \<Rightarrow> 'a list" where
  "compact [] = []"
| "compact (None # xs) = compact xs"
| "compact (Some x # xs) = x # compact xs"

text \<open>\<^verbatim>\<open>indexBy\<close>: an object keyed by \<^verbatim>\<open>key x\<close>; a later element replaces an earlier one.\<close>

definition indexBy :: "('a \<Rightarrow> string) \<Rightarrow> 'a list \<Rightarrow> (string \<rightharpoonup> 'a)" where
  "indexBy key xs = foldl (\<lambda>m x. m(key x \<mapsto> x)) Map.empty xs"

text \<open>
  \<^verbatim>\<open>String.prototype.replace\<close> with a regular expression that has no flag and matches
  one literal text (\<^verbatim>\<open>/ License/\<close>, \<^verbatim>\<open>/github\.com\//\<close>): the leftmost occurrence of
  the text is replaced, and a string without the text is returned unchanged.
\<close>

fun replace :: "string \<Rightarrow> string \<Rightarrow> string \<Rightarrow> string" where
  "replace pat rep [] = (if pat = [] then rep else [])"
| "replace pat rep (c # cs) =
     (if prefix pat (c # cs) then rep @ drop (length pat) (c # cs)
      else c # replace pat rep cs)"

text \<open>\<^verbatim>\<open>x ?? d\<close> on an optional string.\<close>

definition orElse :: "'a option \<Rightarrow> 'a \<Rightarrow> 'a" where
  "orElse x d = (case x of None \<Rightarrow> d | Some y \<Rightarrow> y)"

subsection \<open>Static sections\<close>

text \<open>Lines 26 to 29.\<close>

definition pleaseFileIssue :: "'v env \<Rightarrow> string" where
  "pleaseFileIssue u = link u ''Please file an issue'' (issueURL u)"

text \<open>Lines 31 to 36.\<close>

definition headerMarkdown :: "'v env \<Rightarrow> string" where
  "headerMarkdown u = lines [
     h1 u ''React UI Roundup'',
     p u ''Are you a frontend developer or designer?  Do you wish you had a one-stop-shop you could go to see the various implementations of common components?  If so - React UI Roundup is for you!'',
     p u (''I decided to make this project ''
       @ link u ''while contributing an Alert component to material-ui''
           ''https://github.com/mui-org/material-ui/issues/18094''
       @ ''. While thinking about that component, it was HUGELY helpful to review other implementations from everything from feature set, DOM structure, CSS usage, theming integration, prop naming, and more. I wanted something where I could stand back at a distance and look at many high-quality implementations of a similar component while I researched - so I made this project.''),
     p u (''An even more better version of this exact document is available at '' @ website u
       @ ''.  It has special '' @ [CHR 0x22] @ ''Open All'' @ [CHR 0x22]
       @ '' buttons that allow you to open every link in a table with one click!  Also, the Framework Statistics section on the website is always up to date since it pulls the data in realtime when you load the page.'')]"

text \<open>Lines 38 to 41.\<close>

definition howToMakeAChange :: "'v env \<Rightarrow> string" where
  "howToMakeAChange u = lines [
     h1 u ''How to Make a Change'',
     p u (''The README.md and website are both autogenerated from the same source input files.  For convenience, there is exactly one file for each project that has all the information for that project, located in the ''
       @ link u (inlineCode u ''frameworks directory'')
           ''https://github.com/dimitropoulos/react-ui-roundup/tree/master/frameworks''
       @ ''.  To update any given data point, simply make a change to one of those files and run ''
       @ inlineCode u ''yarn generate'' @ ''.'')]"

subsection \<open>The Frameworks section\<close>

text \<open>
  The row of one framework in the statistics table, lines 55 to 63. Each statistic is
  read through optional chaining from \<^verbatim>\<open>repoInfo[repoURL]\<close> and falls back to
  \<^verbatim>\<open>noValue\<close>.
\<close>

definition statsRow :: "'v env \<Rightarrow> (string \<rightharpoonup> repoStats) \<Rightarrow> ('v, 'f) framework \<Rightarrow> string list" where
  "statsRow u repoInfo fw = [
     frameworkName fw,
     link u (removeProtocol u (frameworkHomepage fw)) (frameworkHomepage fw),
     link u (replace ''github.com/'' [] (removeProtocol u (repoURL fw))) (repoURL fw),
     orElse (map_option (toLocaleString u) (Option.bind (repoInfo (repoURL fw)) stargazers_count)) (noValue u),
     orElse (map_option (toLocaleString u) (Option.bind (repoInfo (repoURL fw)) forks_count)) (noValue u),
     orElse (map_option (toLocaleString u) (Option.bind (repoInfo (repoURL fw)) open_issues_count)) (noValue u),
     orElse (map_option (replace '' License'' [])
        (Option.bind (Option.bind (repoInfo (repoURL fw)) license) l_name)) (noValue u)]"

text \<open>Lines 43 to 66.\<close>

definition frameworksSectionMarkdown ::
  "'v env \<Rightarrow> ('v, 'f) framework list \<Rightarrow> (string \<rightharpoonup> repoStats) \<Rightarrow> error + string" where
  "frameworksSectionMarkdown u frameworks repoInfo =
     (case table u [''Name'', ''Homepage'', ''Repository'', ''Stars'', ''Forks'', ''Issues'', ''License'']
             (map (statsRow u repoInfo) frameworks) of
        Inl e \<Rightarrow> Inl e
      | Inr t \<Rightarrow> Inr (lines [
          h2 u ''Framework Statistics'',
          t,
          quote u (''all of the above statistics were last updated '' @ toUTCString u
            @ ''.  For real-time data, '' @ link u ''see the website'' (websiteHref u) @ ''.'')]))"

text \<open>Lines 68 to 84.\<close>

definition frameworkFeaturesSectionMarkdown ::
  "'v env \<Rightarrow> 'f featureInfo list \<Rightarrow> ('v, 'f) framework list \<Rightarrow> error + string" where
  "frameworkFeaturesSectionMarkdown u frameworkInfo frameworks =
     (case table u (''Name'' # map f_name frameworkInfo)
             (map (\<lambda>fw. frameworkName fw #
                     map (\<lambda>fi. f_toMarkdown fi (frameworkFeaturesById fw (featureId fi))) frameworkInfo)
                frameworks) of
        Inl e \<Rightarrow> Inl e
      | Inr t \<Rightarrow> Inr (lines [
          h2 u ''Framework Features'',
          criteria u (map (\<lambda>fi. (f_name fi, f_criteria fi)) frameworkInfo),
          t]))"

text \<open>Lines 86 to 90.\<close>

definition frameworksMarkdown ::
  "'v env \<Rightarrow> 'f featureInfo list \<Rightarrow> ('v, 'f) framework list \<Rightarrow> (string \<rightharpoonup> repoStats)
     \<Rightarrow> error + string" where
  "frameworksMarkdown u frameworkInfo frameworks repoInfo =
     (case frameworksSectionMarkdown u frameworks repoInfo of
        Inl e \<Rightarrow> Inl e
      | Inr stats \<Rightarrow>
         (case frameworkFeaturesSectionMarkdown u frameworkInfo frameworks of
            Inl e \<Rightarrow> Inl e
          | Inr features \<Rightarrow> Inr (lines [h1 u ''Frameworks'', stats, features])))"

subsection \<open>The Components section\<close>

text \<open>Lines 97 to 100.\<close>

definition optionsArray :: "'v componentDescriptor \<Rightarrow> 'v optionInfo list" where
  "optionsArray d = sortBy o_name (values' (optionsById d))"

text \<open>Lines 102 to 106.\<close>

definition headers :: "'v componentDescriptor \<Rightarrow> string list" where
  "headers d = ''Framework'' # ''Name'' # map o_name (optionsArray d)"

text \<open>Lines 108 to 114.\<close>

definition enhancedComponents :: "('v, 'f) framework list \<Rightarrow> 'v enhancedComponent list" where
  "enhancedComponents frameworks =
     concat (map (\<lambda>fw.
       map (\<lambda>c. \<lparr>componentId = componentId c, componentName = componentName c,
                 componentURL = componentURL c, options = options c,
                 e_frameworkId = frameworkId fw, e_frameworkName = frameworkName fw\<rparr>)
         (components fw)) frameworks)"

text \<open>Lines 116 to 125.\<close>

definition rows :: "'v env \<Rightarrow> 'v componentDescriptor \<Rightarrow> ('v, 'f) framework list \<Rightarrow> string list list" where
  "rows u d frameworks =
     map (\<lambda>e. e_frameworkName e # link u (componentName e) (componentURL e) #
               map (\<lambda>oi. o_toMarkdown oi (options e (optionId oi))) (optionsArray d))
       (filter (\<lambda>e. componentId e = d_componentId d) (enhancedComponents frameworks))"

text \<open>
  The first stages of the \<^verbatim>\<open>missingFrameworks\<close> pipe, lines 128 to 134: the ids of
  the frameworks that have a component of this id, and the frameworks whose id is not
  among them.
\<close>

definition missingList :: "string \<Rightarrow> ('v, 'f) framework list \<Rightarrow> ('v, 'f) framework list" where
  "missingList cid frameworks =
     (let frameworkIds = map e_frameworkId
            (filter (\<lambda>e. componentId e = cid) (enhancedComponents frameworks))
      in filter (\<lambda>fw. \<not> frameworkId fw \<in> set frameworkIds) frameworks)"

text \<open>Lines 135 to 138: the links, with a comma between neighbours.\<close>

definition missingLinks :: "'v env \<Rightarrow> ('v, 'f) framework list \<Rightarrow> string list" where
  "missingLinks u ms = intersperse '', '' (map (\<lambda>fw. link u (frameworkName fw) (repoURL fw)) ms)"

text \<open>The \<^verbatim>\<open>switch\<close> on the number of elements, lines 139 to 153.\<close>

definition listGrammar :: "string list \<Rightarrow> string list" where
  "listGrammar elements =
     (if length elements = 0 then []
      else if length elements = 1 then elements
      else if length elements = 3 then update 1 '' and '' elements
      else update (length elements - 2) '', and '' elements)"

text \<open>Lines 154 to 157.\<close>

definition withSentence :: "'v env \<Rightarrow> 'v componentDescriptor \<Rightarrow> string list \<Rightarrow> string list" where
  "withSentence u d elements =
     (if length elements > 0
      then elements @ [
        '' appear'' @ (if length elements = 1 then ''s'' else [])
        @ '' to be missing '' @ indefiniteArticle d @ '' '' @ cannonicalName d
        @ '' component. '' @ pleaseFileIssue u @ '' if one now exists.\<newline>'']
      else [])"

text \<open>The whole pipe, lines 127 to 161.\<close>

definition missingFrameworks :: "'v env \<Rightarrow> 'v componentDescriptor \<Rightarrow> ('v, 'f) framework list \<Rightarrow> string" where
  "missingFrameworks u d frameworks =
     (case concatAll (withSentence u d (listGrammar
             (missingLinks u (missingList (d_componentId d) frameworks)))) of
        None \<Rightarrow> []
      | Some line \<Rightarrow> if length line > 0 then quote u line else [])"

text \<open>The blocks of one descriptor, lines 163 to 174.\<close>

definition componentSection ::
  "'v env \<Rightarrow> ('v, 'f) framework list \<Rightarrow> 'v componentDescriptor \<Rightarrow> error + string list" where
  "componentSection u frameworks d =
     (case table u (headers d) (rows u d frameworks) of
        Inl e \<Rightarrow> Inl e
      | Inr t \<Rightarrow> Inr [
          h2 u (cannonicalName d),
          p u (case description d of Plain s \<Rightarrow> s | Rich m \<Rightarrow> m),
          criteria u (map (\<lambda>(key, v). (o_name v, o_criteria v)) (toStablePairs u (optionsById d))),
          t,
          missingFrameworks u d frameworks])"

text \<open>\<^verbatim>\<open>chain\<close> over a callback that may throw: the first failure ends the run.\<close>

fun chain' :: "('a \<Rightarrow> error + 'b list) \<Rightarrow> 'a list \<Rightarrow> error + 'b list" where
  "chain' f [] = Inr []"
| "chain' f (x # xs) =
     (case f x of
        Inl e \<Rightarrow> Inl e
      | Inr ys \<Rightarrow> (case chain' f xs of Inl e \<Rightarrow> Inl e | Inr zs \<Rightarrow> Inr (ys @ zs)))"

text \<open>Lines 94 to 176.\<close>

definition componentsMarkdown ::
  "'v env \<Rightarrow> 'v componentDescriptor list \<Rightarrow> ('v, 'f) framework list \<Rightarrow> error + string" where
  "componentsMarkdown u componentInfo frameworks =
     (case chain' (componentSection u frameworks) componentInfo of
        Inl e \<Rightarrow> Inl e
      | Inr blocks \<Rightarrow> Inr (lines (h1 u ''Components'' # blocks)))"

subsection \<open>The entry point\<close>

text \<open>
  Lines 178 to 195. \<open>getRepoInfo\<close> is the outcome of the request for each URL, absent
  when the request failed. The result is the text handed to \<^verbatim>\<open>writeFile\<close> for
  \<^verbatim>\<open>README.md\<close>.
\<close>

definition fetchAll ::
  "'v env \<Rightarrow> 'v componentDescriptor list \<Rightarrow> 'f featureInfo list \<Rightarrow> ('v, 'f) framework list
     \<Rightarrow> (string \<Rightarrow> repoStats option) \<Rightarrow> error + string" where
  "fetchAll u componentInfo frameworkInfo frameworks getRepoInfo =
     (let repoInfo = map (\<lambda>fw. getRepoInfo (repoURL fw)) frameworks in
      case frameworksMarkdown u frameworkInfo frameworks (indexBy html_url (compact repoInfo)) of
        Inl e \<Rightarrow> Inl e
      | Inr fm \<Rightarrow>
         (case componentsMarkdown u componentInfo frameworks of
            Inl e \<Rightarrow> Inl e
          | Inr cm \<Rightarrow> Inr (lines [headerMarkdown u, fm, cm, howToMakeAChange u])))"

subsection \<open>Notions used in the statements\<close>

text \<open>A framework implements a component id when one of its components has that id.\<close>

definition implements :: "string \<Rightarrow> ('v, 'f) framework \<Rightarrow> bool" where
  "implements cid fw = (cid \<in> set (map componentId (components fw)))"

text \<open>
  The frameworks without the components whose id no descriptor of the registry has.
\<close>

definition dropUnknown ::
  "'v componentDescriptor list \<Rightarrow> ('v, 'f) framework list \<Rightarrow> ('v, 'f) framework list" where
  "dropUnknown componentInfo frameworks =
     map (\<lambda>fw. fw\<lparr>components :=
            filter (\<lambda>c. componentId c \<in> set (map d_componentId componentInfo)) (components fw)\<rparr>)
       frameworks"

text \<open>
  The five blocks of one descriptor when its table is well formed: what
  \<open>componentSection\<close> returns when \<open>table\<close> does not fail.
\<close>

definition sectionBlocks ::
  "'v env \<Rightarrow> ('v, 'f) framework list \<Rightarrow> 'v componentDescriptor \<Rightarrow> string list" where
  "sectionBlocks u frameworks d = [
     h2 u (cannonicalName d),
     p u (case description d of Plain s \<Rightarrow> s | Rich m \<Rightarrow> m),
     criteria u (map (\<lambda>(key, v). (o_name v, o_criteria v)) (toStablePairs u (optionsById d))),
     renderTable u (headers d) (rows u d frameworks),
     missingFrameworks u d frameworks]"



subsection \<open>Example data\<close>

text \<open>
  One choice of the helpers, printing Markdown, and a small registry: the descriptor of
  an alert with two options, and frameworks that do or do not have an alert. They serve
  as concrete inputs below.
\<close>

fun ex_decimal :: "nat \<Rightarrow> string" where
  "ex_decimal n =
     (if n < 10 then [char_of (48 + n)] else ex_decimal (n div 10) @ [char_of (48 + n mod 10)])"

definition ex_env :: "string env" where
  "ex_env = \<lparr>
     h1 = (\<lambda>t. ''# '' @ t),
     h2 = (\<lambda>t. ''## '' @ t),
     p = (\<lambda>t. t),
     quote = (\<lambda>t. ''> '' @ t),
     inlineCode = (\<lambda>t. ''`'' @ t @ ''`''),
     link = (\<lambda>t href. ''['' @ t @ '']('' @ href @ '')''),
     criteria = (\<lambda>ps. joinWith ''\<newline>'' (map (\<lambda>(n, c). ''- **'' @ n @ ''**: '' @ c) ps)),
     renderTable = (\<lambda>hs rs. joinWith ''\<newline>'' (map (joinWith '' | '') (hs # rs))),
     website = ''https://react-ui-roundup.dimitrimitropoulos.com'',
     websiteHref = ''https://react-ui-roundup.dimitrimitropoulos.com'',
     removeProtocol = replace ''https://'' [],
     noValue = ''N/A'',
     toStablePairs = (\<lambda>ps. ps),
     issueURL = ''https://github.com/dimitropoulos/react-ui-roundup/issues/new'',
     toLocaleString = ex_decimal,
     toUTCString = ''Tue, 03 Nov 2026 00:00:00 GMT''\<rparr>"

definition ex_show :: "string option \<Rightarrow> string" where
  "ex_show v = (case v of None \<Rightarrow> ''-'' | Some s \<Rightarrow> s)"

definition ex_alert :: "string componentDescriptor" where
  "ex_alert = \<lparr>
     d_componentId = ''alert'',
     cannonicalName = ''Alert'',
     description = Plain ''A short message.'',
     indefiniteArticle = ''an'',
     optionsById = [
       (''variants'', \<lparr>optionId = ''variants'', o_name = ''Variants'',
          o_criteria = ''How many variants.'', o_toMarkdown = ex_show\<rparr>),
       (''closable'', \<lparr>optionId = ''closable'', o_name = ''Closable'',
          o_criteria = ''Can it be closed.'', o_toMarkdown = ex_show\<rparr>)]\<rparr>"

text \<open>A framework of the given name, with the given components.\<close>

definition ex_framework :: "string \<Rightarrow> string component list \<Rightarrow> (string, string) framework" where
  "ex_framework nm cs = \<lparr>
     frameworkId = nm,
     frameworkName = nm,
     frameworkHomepage = ''https://'' @ nm @ ''.dev'',
     repoURL = ''https://github.com/'' @ nm,
     components = cs,
     frameworkFeaturesById = Map.empty\<rparr>"

definition ex_alertOf :: "string \<Rightarrow> string component" where
  "ex_alertOf nm = \<lparr>
     componentId = ''alert'',
     componentName = nm @ ''Alert'',
     componentURL = ''https://'' @ nm @ ''.dev/alert'',
     options = [''closable'' \<mapsto> ''Yes'']\<rparr>"

text \<open>A component whose id is not in the registry.\<close>

definition ex_stray :: "string component" where
  "ex_stray = \<lparr>
     componentId = ''carousel'',
     componentName = ''Carousel'',
     componentURL = ''https://Beta.dev/carousel'',
     options = Map.empty\<rparr>"

text \<open>Acme and Beta have an alert, Beta also has the stray component, Gamma has nothing.\<close>

definition ex_frameworks :: "(string, string) framework list" where
  "ex_frameworks = [
     ex_framework ''Acme'' [ex_alertOf ''Acme''],
     ex_framework ''Beta'' [ex_stray, ex_alertOf ''Beta''],
     ex_framework ''Gamma'' []]"

text \<open>Frameworks of the given names, none of which has any component.\<close>

definition ex_bare :: "string list \<Rightarrow> (string, string) framework list" where
  "ex_bare nms = map (\<lambda>nm. ex_framework nm []) nms"

definition ex_stats :: "string \<Rightarrow> string \<Rightarrow> repoStats" where
  "ex_stats url lic = \<lparr>
     html_url = url,
     stargazers_count = Some 3,
     forks_count = Some 2,
     open_issues_count = Some 1,
     license = Some \<lparr>l_name = Some lic\<rparr>\<rparr>"


section \<open>Properties\<close>

subsection \<open>The list grammar of the missing-frameworks call-out\<close>

lemma length_intersperse: "length (intersperse sep xs) = 2 * length xs - 1"
  by (induction sep xs rule: intersperse.induct) auto

lemma intersperse_snoc:
  "xs \<noteq> [] \<Longrightarrow> intersperse sep (xs @ [y]) = intersperse sep xs @ [sep, y]"
  by (induction sep xs rule: intersperse.induct) auto

lemma intersperse_eq_Nil [simp]: "intersperse sep xs = [] \<longleftrightarrow> xs = []"
  by (induction sep xs rule: intersperse.induct) auto

lemma listGrammar_many:
  assumes "3 \<le> length xs"
  shows "listGrammar (intersperse sep xs) = intersperse sep (butlast xs) @ ['', and '', last xs]"
proof -
  from assms have ne: "xs \<noteq> []" and ne': "butlast xs \<noteq> []"
    by (auto simp: butlast_conv_take)
  have split: "intersperse sep xs = intersperse sep (butlast xs) @ [sep, last xs]"
    using intersperse_snoc [OF ne', of sep "last xs"] ne by simp
  have len: "length (intersperse sep xs) = 2 * length xs - 1"
    by (rule length_intersperse)
  have lenb: "length (intersperse sep (butlast xs)) = length (intersperse sep xs) - 2"
    by (simp add: length_intersperse)
  have n0: "length (intersperse sep xs) \<noteq> 0" "length (intersperse sep xs) \<noteq> 1"
    "length (intersperse sep xs) \<noteq> 3"
    using assms unfolding len by arith+
  have "listGrammar (intersperse sep xs)
      = update (length (intersperse sep xs) - 2) '', and '' (intersperse sep xs)"
    unfolding listGrammar_def using n0 by (simp only: if_False)
  also have "\<dots> = (intersperse sep (butlast xs) @ [sep, last xs])
       [length (intersperse sep (butlast xs)) := '', and '']"
    unfolding update_def lenb [symmetric] using split by simp
  also have "\<dots> = intersperse sep (butlast xs) @ ['', and '', last xs]"
    by (simp add: list_update_append)
  finally show ?thesis .
qed

lemma missingList_bare: "missingList cid (ex_bare nms) = ex_bare nms"
  by (simp add: missingList_def enhancedComponents_def ex_bare_def ex_framework_def)

lemma listGrammar_two: "listGrammar [x, sep, y] = [x, '' and '', y]"
  by (simp add: listGrammar_def update_def)

text \<open>
  C1, as the code has it. The \<^verbatim>\<open>switch\<close> counts the elements after the commas were
  put in, so its case 3 is the case of two links: two missing frameworks are joined with
  \<open>'' and ''\<close> and no comma. When three or more frameworks are missing a component, the
  links are joined with commas and the last separator is \<open>'', and ''\<close>: three missing
  frameworks read "A, B, and C", by the same rule as four or more.
\<close>

theorem missing_list_grammar:
  "(missingList cid frameworks = [a, b] \<longrightarrow>
      listGrammar (missingLinks u (missingList cid frameworks)) =
        [link u (frameworkName a) (repoURL a), '' and '', link u (frameworkName b) (repoURL b)])
   \<and> (3 \<le> length (missingList cid frameworks) \<longrightarrow>
      listGrammar (missingLinks u (missingList cid frameworks)) =
           intersperse '', '' (map (\<lambda>fw. link u (frameworkName fw) (repoURL fw))
               (butlast (missingList cid frameworks)))
           @ ['', and '',
              link u (frameworkName (last (missingList cid frameworks)))
                     (repoURL (last (missingList cid frameworks)))])"
proof (intro conjI impI)
  let ?ms = "missingList cid frameworks"
  show "listGrammar (missingLinks u ?ms) =
        [link u (frameworkName a) (repoURL a), '' and '', link u (frameworkName b) (repoURL b)]"
    if "?ms = [a, b]"
    unfolding that missingLinks_def by (simp add: listGrammar_two)
  show "listGrammar (missingLinks u ?ms) =
           intersperse '', '' (map (\<lambda>fw. link u (frameworkName fw) (repoURL fw)) (butlast ?ms))
           @ ['', and '', link u (frameworkName (last ?ms)) (repoURL (last ?ms))]"
    if three: "3 \<le> length ?ms"
  proof -
    from three have "?ms \<noteq> []" by auto
    then show ?thesis
      using listGrammar_many [of "map (\<lambda>fw. link u (frameworkName fw) (repoURL fw)) ?ms" "'', ''"] three
      by (simp add: missingLinks_def map_butlast last_map)
  qed
qed

theorem missing_list_grammar_witness:
  "missingList ''alert'' (ex_bare [''Acme'', ''Beta''])
      = [ex_framework ''Acme'' [], ex_framework ''Beta'' []]
   \<and> listGrammar (missingLinks ex_env (missingList ''alert'' (ex_bare [''Acme'', ''Beta'']))) =
      [''[Acme](https://github.com/Acme)'', '' and '', ''[Beta](https://github.com/Beta)'']
   \<and> 3 \<le> length (missingList ''alert'' (ex_bare [''Acme'', ''Beta'', ''Gamma'']))
   \<and> listGrammar (missingLinks ex_env (missingList ''alert'' (ex_bare [''Acme'', ''Beta'', ''Gamma'']))) =
      [''[Acme](https://github.com/Acme)'', '', '', ''[Beta](https://github.com/Beta)'', '', and '',
       ''[Gamma](https://github.com/Gamma)'']"
proof -
  have two: "missingList ''alert'' (ex_bare [''Acme'', ''Beta''])
      = [ex_framework ''Acme'' [], ex_framework ''Beta'' []]"
    by (simp add: missingList_bare) (simp add: ex_bare_def)
  have three: "3 \<le> length (missingList ''alert'' (ex_bare [''Acme'', ''Beta'', ''Gamma'']))"
    by (simp add: missingList_bare) (simp add: ex_bare_def)
  from missing_list_grammar [of "''alert''" "ex_bare [''Acme'', ''Beta'']"
      "ex_framework ''Acme'' []" "ex_framework ''Beta'' []" ex_env] two
  have a: "listGrammar (missingLinks ex_env (missingList ''alert'' (ex_bare [''Acme'', ''Beta'']))) =
      [link ex_env (frameworkName (ex_framework ''Acme'' [])) (repoURL (ex_framework ''Acme'' [])),
       '' and '',
       link ex_env (frameworkName (ex_framework ''Beta'' [])) (repoURL (ex_framework ''Beta'' []))]"
    by blast
  from missing_list_grammar [of "''alert''" "ex_bare [''Acme'', ''Beta'', ''Gamma'']" _ _ ex_env] three
  have b: "listGrammar (missingLinks ex_env (missingList ''alert'' (ex_bare [''Acme'', ''Beta'', ''Gamma'']))) =
           intersperse '', '' (map (\<lambda>fw. link ex_env (frameworkName fw) (repoURL fw))
               (butlast (missingList ''alert'' (ex_bare [''Acme'', ''Beta'', ''Gamma'']))))
           @ ['', and '',
              link ex_env (frameworkName (last (missingList ''alert'' (ex_bare [''Acme'', ''Beta'', ''Gamma'']))))
                     (repoURL (last (missingList ''alert'' (ex_bare [''Acme'', ''Beta'', ''Gamma'']))))]"
    by blast
  have a': "listGrammar (missingLinks ex_env (missingList ''alert'' (ex_bare [''Acme'', ''Beta'']))) =
      [''[Acme](https://github.com/Acme)'', '' and '', ''[Beta](https://github.com/Beta)'']"
    unfolding a by (simp add: ex_framework_def ex_env_def)
  have b': "listGrammar (missingLinks ex_env (missingList ''alert'' (ex_bare [''Acme'', ''Beta'', ''Gamma'']))) =
      [''[Acme](https://github.com/Acme)'', '', '', ''[Beta](https://github.com/Beta)'', '', and '',
       ''[Gamma](https://github.com/Gamma)'']"
    unfolding b by (simp add: missingList_bare) (simp add: ex_bare_def ex_framework_def ex_env_def)
  show ?thesis by (intro conjI two a' three b')
qed

text \<open>
  C1, as the specification states it, fails: with exactly three missing frameworks the
  joined list is not "A and B and C".
\<close>

theorem three_missing_counterexample:
  "length (missingList ''alert'' (ex_bare [''Acme'', ''Beta'', ''Gamma''])) = 3
   \<and> concat (listGrammar (missingLinks ex_env (missingList ''alert'' (ex_bare [''Acme'', ''Beta'', ''Gamma'']))))
       = ''[Acme](https://github.com/Acme), [Beta](https://github.com/Beta), and [Gamma](https://github.com/Gamma)''
   \<and> concat (listGrammar (missingLinks ex_env (missingList ''alert'' (ex_bare [''Acme'', ''Beta'', ''Gamma'']))))
       \<noteq> ''[Acme](https://github.com/Acme) and [Beta](https://github.com/Beta) and [Gamma](https://github.com/Gamma)''"
  by (simp add: missingList_bare)
     (simp add: ex_bare_def ex_framework_def ex_env_def missingLinks_def listGrammar_def update_def)

subsection \<open>The sentence of the call-out\<close>

lemma length_update [simp]: "length (update i x xs) = length xs"
  by (simp add: update_def)

lemma length_listGrammar [simp]: "length (listGrammar els) = length els"
  by (simp add: listGrammar_def)

lemma length_missingLinks: "length (missingLinks u ms) = 2 * length ms - 1"
  by (simp add: missingLinks_def length_intersperse)

text \<open>
  C8. When at least one framework is missing the component, the call-out is the quote of
  the joined links followed by the sentence, which reads "appears" when exactly one
  framework is missing and "appear" otherwise, and whose article is the
  \<^verbatim>\<open>indefiniteArticle\<close> of the descriptor as it stands.
\<close>

theorem sentence_number_and_article:
  assumes "missingList (d_componentId d) frameworks \<noteq> []"
  shows "missingFrameworks u d frameworks =
     quote u (concat (listGrammar (missingLinks u (missingList (d_componentId d) frameworks)))
       @ '' appear''
       @ (if length (missingList (d_componentId d) frameworks) = 1 then ''s'' else [])
       @ '' to be missing '' @ indefiniteArticle d @ '' '' @ cannonicalName d
       @ '' component. '' @ pleaseFileIssue u @ '' if one now exists.\<newline>'')"
proof -
  let ?ms = "missingList (d_componentId d) frameworks"
  let ?els = "listGrammar (missingLinks u ?ms)"
  from assms have pos: "0 < length ?ms" by simp
  then have len: "0 < length ?els" "length ?els = 1 \<longleftrightarrow> length ?ms = 1"
    unfolding length_listGrammar length_missingLinks by arith+
  show ?thesis
    using len by (simp add: missingFrameworks_def withSentence_def concatAll_def)
qed

text \<open>
  One missing framework and the article "an"; two missing frameworks and a descriptor
  whose article is "a" although its name begins with a vowel.
\<close>

theorem sentence_number_and_article_witness:
  "missingList (d_componentId ex_alert) ex_frameworks \<noteq> []
   \<and> missingFrameworks ex_env ex_alert ex_frameworks =
       ''> [Gamma](https://github.com/Gamma) appears to be missing an Alert component. [Please file an issue](https://github.com/dimitropoulos/react-ui-roundup/issues/new) if one now exists.\<newline>''
   \<and> missingFrameworks ex_env (ex_alert\<lparr>indefiniteArticle := ''a''\<rparr>) (ex_bare [''Acme'', ''Beta'']) =
       ''> [Acme](https://github.com/Acme) and [Beta](https://github.com/Beta) appear to be missing a Alert component. [Please file an issue](https://github.com/dimitropoulos/react-ui-roundup/issues/new) if one now exists.\<newline>''"
proof -
  have m1: "missingList (d_componentId ex_alert) ex_frameworks = [ex_framework ''Gamma'' []]"
    by (simp add: missingList_def enhancedComponents_def ex_frameworks_def ex_framework_def
        ex_alert_def ex_alertOf_def ex_stray_def)
  have m2: "missingList (d_componentId (ex_alert\<lparr>indefiniteArticle := ''a''\<rparr>)) (ex_bare [''Acme'', ''Beta''])
      = ex_bare [''Acme'', ''Beta'']"
    by (rule missingList_bare)
  have ne2: "ex_bare [''Acme'', ''Beta''] \<noteq> []" by (simp add: ex_bare_def)
  show ?thesis
    using sentence_number_and_article [of ex_alert ex_frameworks ex_env]
      sentence_number_and_article [of "ex_alert\<lparr>indefiniteArticle := ''a''\<rparr>" "ex_bare [''Acme'', ''Beta'']" ex_env]
    unfolding m1 m2
    by (simp add: ne2)
       (simp add: ex_bare_def ex_framework_def ex_env_def ex_alert_def missingLinks_def
         listGrammar_def update_def pleaseFileIssue_def)
qed

subsection \<open>No call-out when no framework is missing\<close>

lemma lines_drop_empty: "lines (bs @ [] # cs) = lines (bs @ cs)"
  by (simp add: lines_def)

text \<open>
  C6. When no framework is missing the component, the pipe returns the empty string (no
  quote is built), and \<open>lines\<close> drops it: the text is the same as without the block.
\<close>

theorem no_quote_when_none_missing:
  assumes "missingList (d_componentId d) frameworks = []"
  shows "missingFrameworks u d frameworks = []
     \<and> lines (bs @ missingFrameworks u d frameworks # cs) = lines (bs @ cs)"
proof -
  have "missingFrameworks u d frameworks = []"
    using assms
    by (simp add: missingFrameworks_def missingLinks_def listGrammar_def withSentence_def
        concatAll_def)
  then show ?thesis by (simp add: lines_drop_empty)
qed

theorem no_quote_when_none_missing_witness:
  "missingList (d_componentId ex_alert) (take 2 ex_frameworks) = []
   \<and> missingFrameworks ex_env ex_alert (take 2 ex_frameworks) = []
   \<and> lines (sectionBlocks ex_env (take 2 ex_frameworks) ex_alert)
       = lines (butlast (sectionBlocks ex_env (take 2 ex_frameworks) ex_alert))"
proof -
  have m: "missingList (d_componentId ex_alert) (take 2 ex_frameworks) = []"
    by (simp add: missingList_def enhancedComponents_def ex_frameworks_def ex_framework_def
        ex_alert_def ex_alertOf_def ex_stray_def)
  let ?bs = "butlast (sectionBlocks ex_env (take 2 ex_frameworks) ex_alert)"
  note t = no_quote_when_none_missing [OF m, of ex_env ?bs "[]"]
  have "lines (sectionBlocks ex_env (take 2 ex_frameworks) ex_alert)
      = lines (?bs @ missingFrameworks ex_env ex_alert (take 2 ex_frameworks) # [])"
    by (simp add: sectionBlocks_def)
  also have "\<dots> = lines (?bs @ [])"
    by (rule t [THEN conjunct2])
  finally show ?thesis
    using m t [THEN conjunct1] by simp
qed

subsection \<open>The shape of the feature matrix\<close>

lemma map_insort_key: "map f (insort_key f x xs) = insort (f x) (map f xs)"
  by (induction xs) auto

lemma map_sort_key: "map f (sort_key f xs) = sort (map f xs)"
  by (induction xs) (auto simp: map_insort_key)

lemma names_optionsArray: "map o_name (optionsArray d) = sort (map (o_name \<circ> snd) (optionsById d))"
  by (simp add: optionsArray_def sortBy_def values'_def map_sort_key)

lemma length_optionsArray [simp]: "length (optionsArray d) = length (optionsById d)"
  by (simp add: optionsArray_def sortBy_def values'_def)

lemma rows_length: "list_all (\<lambda>row. length row = length (headers d)) (rows u d frameworks)"
  by (simp add: rows_def headers_def list_all_iff)

text \<open>
  C2, as the code has it. The header row is "Framework", "Name" and then the option
  names in sorted order, so its length is 2 plus the number of options of the descriptor;
  every body row has the length of the header.
\<close>

theorem feature_matrix_shape:
  "headers d = ''Framework'' # ''Name'' # sort (map (o_name \<circ> snd) (optionsById d))
   \<and> length (headers d) = 2 + length (optionsById d)
   \<and> list_all (\<lambda>row. length row = length (headers d)) (rows u d frameworks)"
proof (intro conjI)
  show "headers d = ''Framework'' # ''Name'' # sort (map (o_name \<circ> snd) (optionsById d))"
    by (simp add: headers_def names_optionsArray)
  show "length (headers d) = 2 + length (optionsById d)"
    by (simp add: headers_def)
  show "list_all (\<lambda>row. length row = length (headers d)) (rows u d frameworks)"
    by (rule rows_length)
qed

text \<open>
  C2, as the specification states it, fails: the header is not "Framework" followed by the
  option names, and its length is not 1 plus the number of options.
\<close>

theorem feature_matrix_header_counterexample:
  "headers ex_alert = [''Framework'', ''Name'', ''Closable'', ''Variants'']
   \<and> length (optionsById ex_alert) = 2
   \<and> length (headers ex_alert) \<noteq> 1 + length (optionsById ex_alert)
   \<and> headers ex_alert \<noteq> ''Framework'' # sort (map (o_name \<circ> snd) (optionsById ex_alert))"
  by (simp add: headers_def names_optionsArray ex_alert_def less_eq_char_def insort_key.simps)

subsection \<open>Components whose id is not in the registry\<close>

lemma filter_map_filter:
  "(\<And>x. P (g x) \<Longrightarrow> Q x) \<Longrightarrow> filter P (map g (filter Q xs)) = filter P (map g xs)"
  by (induction xs) auto

lemma enhanced_dropUnknown:
  assumes "cid \<in> set (map d_componentId componentInfo)"
  shows "filter (\<lambda>e. componentId e = cid) (enhancedComponents (dropUnknown componentInfo frameworks))
       = filter (\<lambda>e. componentId e = cid) (enhancedComponents frameworks)"
proof (induction frameworks)
  case Nil
  show ?case by (simp add: enhancedComponents_def dropUnknown_def)
next
  case (Cons fw fws)
  let ?g = "\<lambda>c. \<lparr>componentId = componentId c, componentName = componentName c,
                 componentURL = componentURL c, options = options c,
                 e_frameworkId = frameworkId fw, e_frameworkName = frameworkName fw\<rparr>"
  have one: "filter (\<lambda>e. componentId e = cid)
      (map ?g (filter (\<lambda>c. componentId c \<in> set (map d_componentId componentInfo)) (components fw)))
    = filter (\<lambda>e. componentId e = cid) (map ?g (components fw))"
    by (rule filter_map_filter) (use assms in simp)
  show ?case
    using Cons.IH one
    by (simp add: enhancedComponents_def dropUnknown_def)
qed

lemma missingList_dropUnknown:
  assumes "cid \<in> set (map d_componentId componentInfo)"
  shows "missingList cid (dropUnknown componentInfo frameworks)
       = dropUnknown componentInfo (missingList cid frameworks)"
  unfolding missingList_def enhanced_dropUnknown [OF assms] Let_def
  by (simp add: dropUnknown_def filter_map o_def)

lemma missingLinks_dropUnknown:
  "missingLinks u (dropUnknown componentInfo ms) = missingLinks u ms"
  by (simp add: missingLinks_def dropUnknown_def o_def)

lemma rows_dropUnknown:
  assumes "d \<in> set componentInfo"
  shows "rows u d (dropUnknown componentInfo frameworks) = rows u d frameworks"
  using assms by (simp add: rows_def enhanced_dropUnknown)

lemma missingFrameworks_dropUnknown:
  assumes "d \<in> set componentInfo"
  shows "missingFrameworks u d (dropUnknown componentInfo frameworks) = missingFrameworks u d frameworks"
  using assms by (simp add: missingFrameworks_def missingList_dropUnknown missingLinks_dropUnknown)

lemma table_rows: "table u (headers d) (rows u d frameworks) = Inr (renderTable u (headers d) (rows u d frameworks))"
  by (simp add: table_def rows_length)

lemma componentSection_blocks: "componentSection u frameworks d = Inr (sectionBlocks u frameworks d)"
  by (simp add: componentSection_def sectionBlocks_def table_rows)

lemma chain'_Inr: "(\<And>x. f x = Inr (g x)) \<Longrightarrow> chain' f xs = Inr (concat (map g xs))"
  by (induction xs) auto

lemma componentsMarkdown_blocks:
  "componentsMarkdown u componentInfo frameworks =
     Inr (lines (h1 u ''Components'' # concat (map (sectionBlocks u frameworks) componentInfo)))"
  by (simp add: componentsMarkdown_def chain'_Inr [where g = "sectionBlocks u frameworks"] componentSection_blocks)

lemma sectionBlocks_dropUnknown:
  assumes "d \<in> set componentInfo"
  shows "sectionBlocks u (dropUnknown componentInfo frameworks) d = sectionBlocks u frameworks d"
  using assms by (simp add: sectionBlocks_def rows_dropUnknown missingFrameworks_dropUnknown)

text \<open>
  C7. Rendering the Components section never fails, whatever ids the components carry.
  The components whose id is in no descriptor contribute nothing: without them every
  descriptor of the registry has the same table rows, and the whole section is the same
  text.
\<close>

theorem stray_component_dropped:
  "(\<exists>text. componentsMarkdown u componentInfo frameworks = Inr text)
   \<and> (d \<in> set componentInfo \<longrightarrow>
        rows u d (dropUnknown componentInfo frameworks) = rows u d frameworks)
   \<and> componentsMarkdown u componentInfo (dropUnknown componentInfo frameworks)
       = componentsMarkdown u componentInfo frameworks"
proof (intro conjI impI)
  show "\<exists>text. componentsMarkdown u componentInfo frameworks = Inr text"
    by (simp add: componentsMarkdown_blocks)
  show "rows u d (dropUnknown componentInfo frameworks) = rows u d frameworks"
    if "d \<in> set componentInfo" using that by (rule rows_dropUnknown)
  have eq: "map (sectionBlocks u (dropUnknown componentInfo frameworks)) componentInfo
      = map (sectionBlocks u frameworks) componentInfo"
    by (rule map_cong [OF refl]) (rule sectionBlocks_dropUnknown)
  show "componentsMarkdown u componentInfo (dropUnknown componentInfo frameworks)
       = componentsMarkdown u componentInfo frameworks"
    unfolding componentsMarkdown_blocks eq by (rule refl)
qed

text \<open>Beta carries a component of id "carousel", which the registry does not have.\<close>

theorem stray_component_dropped_witness:
  "ex_alert \<in> set [ex_alert]
   \<and> componentId ex_stray \<notin> set (map d_componentId [ex_alert])
   \<and> ex_stray \<in> set (components (ex_frameworks ! 1))
   \<and> rows ex_env ex_alert ex_frameworks =
       [[''Acme'', ''[AcmeAlert](https://Acme.dev/alert)'', ''Yes'', ''-''],
        [''Beta'', ''[BetaAlert](https://Beta.dev/alert)'', ''Yes'', ''-'']]
   \<and> rows ex_env ex_alert (dropUnknown [ex_alert] ex_frameworks) = rows ex_env ex_alert ex_frameworks
   \<and> (\<exists>text. componentsMarkdown ex_env [ex_alert] ex_frameworks = Inr text)"
proof -
  have r: "rows ex_env ex_alert ex_frameworks =
       [[''Acme'', ''[AcmeAlert](https://Acme.dev/alert)'', ''Yes'', ''-''],
        [''Beta'', ''[BetaAlert](https://Beta.dev/alert)'', ''Yes'', ''-'']]"
    by (simp add: rows_def enhancedComponents_def optionsArray_def sortBy_def values'_def
        ex_frameworks_def ex_framework_def ex_alert_def ex_alertOf_def ex_stray_def ex_env_def
        ex_show_def less_eq_char_def)
  have s: "componentId ex_stray \<notin> set (map d_componentId [ex_alert])
      \<and> ex_stray \<in> set (components (ex_frameworks ! 1))"
    by (simp add: ex_stray_def ex_alert_def ex_frameworks_def ex_framework_def)
  show ?thesis
    using stray_component_dropped [of ex_env "[ex_alert]" ex_frameworks ex_alert] r s
    by simp
qed

subsection \<open>The missing frameworks are the complement of the implementing ones\<close>

lemma enhancedComponents_Cons:
  "enhancedComponents (fw # fws) =
     map (\<lambda>c. \<lparr>componentId = componentId c, componentName = componentName c,
                 componentURL = componentURL c, options = options c,
                 e_frameworkId = frameworkId fw, e_frameworkName = frameworkName fw\<rparr>)
       (components fw) @ enhancedComponents fws"
  by (simp add: enhancedComponents_def)

lemma frameworkIds_one:
  "set (map e_frameworkId (filter (\<lambda>e. componentId e = cid)
       (map (\<lambda>c. \<lparr>componentId = componentId c, componentName = componentName c,
                 componentURL = componentURL c, options = options c,
                 e_frameworkId = frameworkId fw, e_frameworkName = frameworkName fw\<rparr>)
         (components fw))))
     = (if implements cid fw then {frameworkId fw} else {})"
  by (auto simp: implements_def filter_map o_def image_iff)

lemma frameworkIds_enhanced:
  "set (map e_frameworkId (filter (\<lambda>e. componentId e = cid) (enhancedComponents frameworks)))
     = frameworkId ` {fw \<in> set frameworks. implements cid fw}"
proof (induction frameworks)
  case Nil
  show ?case by (simp add: enhancedComponents_def)
next
  case (Cons fw fws)
  have split: "{f \<in> set (fw # fws). implements cid f}
     = (if implements cid fw then {fw} else {}) \<union> {f \<in> set fws. implements cid f}"
    by auto
  show ?case
    unfolding enhancedComponents_Cons filter_append map_append set_append
      frameworkIds_one Cons.IH split image_Un
    by simp
qed

lemma missingList_by_id:
  "missingList cid frameworks =
     filter (\<lambda>fw. frameworkId fw \<notin> frameworkId ` {f \<in> set frameworks. implements cid f}) frameworks"
  unfolding missingList_def Let_def frameworkIds_enhanced by (rule refl)

lemma subseq_missingList: "subseq (missingList cid frameworks) frameworks"
  by (simp add: missingList_by_id)

text \<open>
  C4. The missing list and the frameworks that implement the component are disjoint, and
  the missing list is a subsequence of the frameworks collection, in its order. The code
  decides membership by \<^verbatim>\<open>frameworkId\<close>; with the ids being the identity of
  the frameworks (pairwise distinct), the missing list is exactly the frameworks that do
  not implement the component, and together with the implementing ones it makes up the
  whole collection.
\<close>

theorem missing_is_complement:
  "set (missingList cid frameworks) \<inter> set (filter (implements cid) frameworks) = {}
   \<and> subseq (missingList cid frameworks) frameworks
   \<and> (distinct (map frameworkId frameworks) \<longrightarrow>
        missingList cid frameworks = filter (\<lambda>fw. \<not> implements cid fw) frameworks
        \<and> set (missingList cid frameworks) \<union> set (filter (implements cid) frameworks)
            = set frameworks)"
proof (intro conjI impI)
  show "set (missingList cid frameworks) \<inter> set (filter (implements cid) frameworks) = {}"
    unfolding missingList_by_id by auto
  show "subseq (missingList cid frameworks) frameworks"
    by (rule subseq_missingList)
  assume "distinct (map frameworkId frameworks)"
  then have inj: "inj_on frameworkId (set frameworks)"
    by (simp add: distinct_map)
  have "frameworkId fw \<notin> frameworkId ` {f \<in> set frameworks. implements cid f} \<longleftrightarrow> \<not> implements cid fw"
    if "fw \<in> set frameworks" for fw
    using that inj by (auto dest: inj_onD)
  then show eq: "missingList cid frameworks = filter (\<lambda>fw. \<not> implements cid fw) frameworks"
    unfolding missingList_by_id by (intro filter_cong refl)
  show "set (missingList cid frameworks) \<union> set (filter (implements cid) frameworks) = set frameworks"
    unfolding eq by auto
qed

theorem missing_is_complement_witness:
  "distinct (map frameworkId ex_frameworks)
   \<and> missingList ''alert'' ex_frameworks = [ex_framework ''Gamma'' []]
   \<and> filter (implements ''alert'') ex_frameworks = take 2 ex_frameworks
   \<and> set (missingList ''alert'' ex_frameworks) \<union> set (filter (implements ''alert'') ex_frameworks)
       = set ex_frameworks
   \<and> set (missingList ''alert'' ex_frameworks) \<inter> set (filter (implements ''alert'') ex_frameworks) = {}"
proof -
  have d: "distinct (map frameworkId ex_frameworks)"
    by (simp add: ex_frameworks_def ex_framework_def)
  have i: "filter (implements ''alert'') ex_frameworks = take 2 ex_frameworks"
    "filter (\<lambda>fw. \<not> implements ''alert'' fw) ex_frameworks = [ex_framework ''Gamma'' []]"
    by (simp_all add: implements_def ex_frameworks_def ex_framework_def ex_alertOf_def ex_stray_def)
  note t = missing_is_complement [of "''alert''" ex_frameworks]
  from t d have a: "missingList ''alert'' ex_frameworks = [ex_framework ''Gamma'' []]"
    unfolding i(2) by blast
  from t d have b: "set (missingList ''alert'' ex_frameworks)
      \<union> set (filter (implements ''alert'') ex_frameworks) = set ex_frameworks"
    by blast
  from t have c: "set (missingList ''alert'' ex_frameworks)
      \<inter> set (filter (implements ''alert'') ex_frameworks) = {}"
    by (rule conjunct1)
  show ?thesis
    by (intro conjI d a i(1) b c)
qed

subsection \<open>The License column\<close>

lemma replace_absent: "\<not> sublist pat s \<Longrightarrow> replace pat rep s = s"
proof (induction s)
  case Nil
  then show ?case by auto
next
  case (Cons c cs)
  then show ?case by (auto simp: sublist_Cons_right)
qed

lemma prefix_append_butlast:
  assumes "prefix pat (a @ pat @ b)" "a \<noteq> []"
  shows "prefix pat (a @ butlast pat)"
proof -
  have "length pat \<le> length (a @ butlast pat)"
    using assms(2) by (cases a) auto
  moreover have "prefix (a @ butlast pat) (a @ pat @ b)"
    by (simp add: prefixeq_butlast)
  ultimately show ?thesis
    using assms(1) by (metis prefix_length_prefix)
qed

lemma replace_leftmost:
  assumes "pat \<noteq> []" "\<not> sublist pat (a @ butlast pat)"
  shows "replace pat rep (a @ pat @ b) = a @ rep @ b"
  using assms(2)
proof (induction a)
  case Nil
  from assms(1) obtain c cs where "pat = c # cs" by (cases pat) auto
  then show ?case by simp
next
  case (Cons x a)
  have "\<not> prefix pat ((x # a) @ pat @ b)"
    using prefix_append_butlast [of pat "x # a" b] Cons.prems by auto
  moreover have "\<not> sublist pat (a @ butlast pat)"
    using Cons.prems by (auto simp: sublist_Cons_right)
  ultimately show ?case
    using Cons.IH by simp
qed

lemma statsRow_license:
  "statsRow u repoInfo fw ! 6 =
     orElse (map_option (replace '' License'' [])
        (Option.bind (Option.bind (repoInfo (repoURL fw)) license) l_name)) (noValue u)"
  by (simp add: statsRow_def)

text \<open>
  C3, as the code has it. For a framework whose stats carry a license name, the License
  column is the name with the leftmost occurrence of the text \<open>'' License''\<close> removed,
  wherever it stands: a name without the text is rendered unchanged, and a name
  \<open>a @ '' License'' @ b\<close> in which the text does not begin earlier (it does not occur in
  \<open>a @ '' Licens''\<close>) is rendered as \<open>a @ b\<close>. With \<open>b = []\<close> this is the
  removal of the suffix.
\<close>

theorem license_column:
  assumes "repoInfo (repoURL fw) = Some st" "license st = Some li" "l_name li = Some nm"
  shows "statsRow u repoInfo fw ! 6 = replace '' License'' [] nm
     \<and> (\<not> sublist '' License'' nm \<longrightarrow> statsRow u repoInfo fw ! 6 = nm)
     \<and> (\<forall>a b. nm = a @ '' License'' @ b \<and> \<not> sublist '' License'' (a @ '' Licens'')
           \<longrightarrow> statsRow u repoInfo fw ! 6 = a @ b)"
proof -
  have col: "statsRow u repoInfo fw ! 6 = replace '' License'' [] nm"
    using assms by (simp add: statsRow_license orElse_def)
  have "replace '' License'' [] (a @ '' License'' @ b) = a @ b"
    if "\<not> sublist '' License'' (a @ '' Licens'')" for a b
    using replace_leftmost [of "'' License''" a "[]" b] that by simp
  then show ?thesis
    unfolding col by (auto simp: replace_absent)
qed

theorem license_column_witness:
  "statsRow ex_env [''https://github.com/Acme'' \<mapsto> ex_stats ''https://github.com/Acme'' ''MIT License'']
      (ex_framework ''Acme'' []) ! 6 = ''MIT''
   \<and> statsRow ex_env [''https://github.com/Acme'' \<mapsto> ex_stats ''https://github.com/Acme'' ''ISC'']
      (ex_framework ''Acme'' []) ! 6 = ''ISC''"
proof -
  let ?url = "''https://github.com/Acme''"
  have u: "repoURL (ex_framework ''Acme'' []) = ?url"
    by (simp add: ex_framework_def)
  have h: "[?url \<mapsto> ex_stats ?url nm] (repoURL (ex_framework ''Acme'' [])) = Some (ex_stats ?url nm)"
    "license (ex_stats ?url nm) = Some \<lparr>l_name = Some nm\<rparr>"
    "l_name \<lparr>l_name = Some nm\<rparr> = Some nm" for nm
    by (simp_all add: u ex_stats_def)
  have n1: "\<not> sublist '' License'' (''MIT'' @ '' Licens'')"
    by (simp add: sublist_Cons_right)
  have n2: "\<not> sublist '' License'' ''ISC''"
    by (simp add: sublist_Cons_right)
  from license_column [of "[?url \<mapsto> ex_stats ?url ''MIT License'']" "ex_framework ''Acme'' []"
      "ex_stats ?url ''MIT License''" "\<lparr>l_name = Some ''MIT License''\<rparr>" "''MIT License''" ex_env, OF h] n1
  have a: "statsRow ex_env [?url \<mapsto> ex_stats ?url ''MIT License''] (ex_framework ''Acme'' []) ! 6 = ''MIT''"
    by (elim conjE allE [of _ "''MIT''"] allE [of _ "[]"]) simp
  from license_column [of "[?url \<mapsto> ex_stats ?url ''ISC'']" "ex_framework ''Acme'' []"
      "ex_stats ?url ''ISC''" "\<lparr>l_name = Some ''ISC''\<rparr>" "''ISC''" ex_env, OF h] n2
  have b: "statsRow ex_env [?url \<mapsto> ex_stats ?url ''ISC''] (ex_framework ''Acme'' []) ! 6 = ''ISC''"
    by blast
  show ?thesis by (intro conjI a b)
qed

text \<open>
  C3, as the specification states it, fails: "Apache License 2.0" does not end with
  \<open>'' License''\<close>, and it is not rendered unchanged.
\<close>

theorem license_suffix_counterexample:
  "\<not> suffix '' License'' ''Apache License 2.0''
   \<and> statsRow ex_env [''https://github.com/Acme'' \<mapsto> ex_stats ''https://github.com/Acme'' ''Apache License 2.0'']
        (ex_framework ''Acme'' []) ! 6 = ''Apache 2.0''
   \<and> statsRow ex_env [''https://github.com/Acme'' \<mapsto> ex_stats ''https://github.com/Acme'' ''Apache License 2.0'']
        (ex_framework ''Acme'' []) ! 6 \<noteq> ''Apache License 2.0''"
  by (simp add: statsRow_license orElse_def ex_framework_def ex_stats_def suffix_def)

subsection \<open>Frameworks without stats\<close>

lemma statsRow_absent:
  "repoInfo (repoURL fw) = None \<Longrightarrow>
     drop 3 (statsRow u repoInfo fw) = [noValue u, noValue u, noValue u, noValue u]"
  by (simp add: statsRow_def orElse_def)

lemma length_statsRow: "length (statsRow u repoInfo fw) = 7"
  by (simp add: statsRow_def)

lemma frameworksSectionMarkdown_text:
  "frameworksSectionMarkdown u frameworks repoInfo = Inr (lines [
     h2 u ''Framework Statistics'',
     renderTable u [''Name'', ''Homepage'', ''Repository'', ''Stars'', ''Forks'', ''Issues'', ''License'']
       (map (statsRow u repoInfo) frameworks),
     quote u (''all of the above statistics were last updated '' @ toUTCString u
       @ ''.  For real-time data, '' @ link u ''see the website'' (websiteHref u) @ ''.'')])"
  by (simp add: frameworksSectionMarkdown_def table_def list_all_iff length_statsRow)

text \<open>
  C5. For a framework whose repository URL is not a key of the stats lookup, the four
  statistics cells (stars, forks, issues, license) are all \<^verbatim>\<open>noValue\<close>, and building
  the statistics section does not fail.
\<close>

theorem absent_stats_placeholder:
  assumes "repoInfo (repoURL fw) = None"
  shows "drop 3 (statsRow u repoInfo fw) = [noValue u, noValue u, noValue u, noValue u]
     \<and> (\<exists>text. frameworksSectionMarkdown u frameworks repoInfo = Inr text)"
  using assms by (simp add: statsRow_absent frameworksSectionMarkdown_text)

theorem absent_stats_placeholder_witness:
  "[''https://github.com/Beta'' \<mapsto> ex_stats ''https://github.com/Beta'' ''MIT License'']
      (repoURL (ex_framework ''Acme'' [])) = None
   \<and> statsRow ex_env [''https://github.com/Beta'' \<mapsto> ex_stats ''https://github.com/Beta'' ''MIT License'']
        (ex_framework ''Acme'' []) =
       [''Acme'', ''[Acme.dev](https://Acme.dev)'', ''[Acme](https://github.com/Acme)'',
        ''N/A'', ''N/A'', ''N/A'', ''N/A'']"
proof -
  let ?info = "[''https://github.com/Beta'' \<mapsto> ex_stats ''https://github.com/Beta'' ''MIT License'']"
  let ?row = "statsRow ex_env ?info (ex_framework ''Acme'' [])"
  have e: "?info (repoURL (ex_framework ''Acme'' [])) = None"
    by (simp add: ex_framework_def)
  have lead: "take 3 ?row =
      [''Acme'', ''[Acme.dev](https://Acme.dev)'', ''[Acme](https://github.com/Acme)'']"
    by (simp add: statsRow_def ex_env_def ex_framework_def)
  have v: "noValue ex_env = ''N/A''" by (simp add: ex_env_def)
  from absent_stats_placeholder [of ?info "ex_framework ''Acme'' []" ex_env "[]", OF e]
  have tail: "drop 3 ?row = [''N/A'', ''N/A'', ''N/A'', ''N/A'']"
    unfolding v by (rule conjunct1)
  have "?row = take 3 ?row @ drop 3 ?row"
    by (simp only: append_take_drop_id)
  then have "?row = [''Acme'', ''[Acme.dev](https://Acme.dev)'', ''[Acme](https://github.com/Acme)'',
        ''N/A'', ''N/A'', ''N/A'', ''N/A'']"
    unfolding lead tail by simp
  with e show ?thesis by (intro conjI)
qed

subsection \<open>The order of the sections\<close>

lemma joinWith_append:
  "xs \<noteq> [] \<Longrightarrow> ys \<noteq> [] \<Longrightarrow> joinWith sep (xs @ ys) = joinWith sep xs @ sep @ joinWith sep ys"
proof (induction sep xs rule: joinWith.induct)
  case (1 sep)
  then show ?case by simp
next
  case (2 sep x)
  then show ?case by (cases ys) auto
next
  case (3 sep x y ys')
  then show ?case by simp
qed

lemma joinWith_eq_Nil:
  "list_all (\<lambda>x. x \<noteq> []) xs \<Longrightarrow> joinWith sep xs = [] \<longleftrightarrow> xs = []"
  by (induction sep xs rule: joinWith.induct) auto

lemma lines_eq_Nil: "lines bs = [] \<longleftrightarrow> filter (\<lambda>b. b \<noteq> []) bs = []"
  unfolding lines_def by (rule joinWith_eq_Nil) (simp add: list_all_iff)

lemma lines_nonempty_Cons: "b \<noteq> [] \<Longrightarrow> lines (b # bs) \<noteq> []"
  by (simp add: lines_eq_Nil)

lemma lines_append:
  assumes "lines xs \<noteq> []" "lines ys \<noteq> []"
  shows "lines (xs @ ys) = lines xs @ ''\<newline>\<newline>'' @ lines ys"
  using assms unfolding lines_eq_Nil unfolding lines_def filter_append
  by (rule joinWith_append)

lemma lines_Cons:
  assumes "b \<noteq> []" "lines bs \<noteq> []"
  shows "lines (b # bs) = b @ ''\<newline>\<newline>'' @ lines bs"
proof -
  have "lines [b] = b" using assms(1) by (simp add: lines_def)
  moreover have "lines ([b] @ bs) = lines [b] @ ''\<newline>\<newline>'' @ lines bs"
    by (rule lines_append) (use assms in \<open>simp_all add: lines_nonempty_Cons\<close>)
  ultimately show ?thesis by simp
qed

lemma lines_single: "lines [b] = b"
  by (simp add: lines_def)

lemma lines_sections:
  assumes "\<And>x. lines (f x) \<noteq> []"
  shows "lines bs \<noteq> [] \<Longrightarrow>
     lines (bs @ concat (map f xs)) = lines bs @ concat (map (\<lambda>x. ''\<newline>\<newline>'' @ lines (f x)) xs)"
proof (induction xs arbitrary: bs)
  case Nil
  then show ?case by simp
next
  case (Cons x xs)
  have step: "lines (bs @ f x) = lines bs @ ''\<newline>\<newline>'' @ lines (f x)"
    using Cons.prems assms by (rule lines_append)
  then have ne: "lines (bs @ f x) \<noteq> []"
    using Cons.prems by simp
  have "lines (bs @ concat (map f (x # xs))) = lines ((bs @ f x) @ concat (map f xs))"
    by simp
  also have "\<dots> = lines (bs @ f x) @ concat (map (\<lambda>x. ''\<newline>\<newline>'' @ lines (f x)) xs)"
    using ne by (rule Cons.IH)
  finally show ?case
    unfolding step by simp
qed

lemma frameworkFeaturesSectionMarkdown_text:
  "frameworkFeaturesSectionMarkdown u frameworkInfo frameworks = Inr (lines [
     h2 u ''Framework Features'',
     criteria u (map (\<lambda>fi. (f_name fi, f_criteria fi)) frameworkInfo),
     renderTable u (''Name'' # map f_name frameworkInfo)
       (map (\<lambda>fw. frameworkName fw #
               map (\<lambda>fi. f_toMarkdown fi (frameworkFeaturesById fw (featureId fi))) frameworkInfo)
          frameworks)])"
  by (simp add: frameworkFeaturesSectionMarkdown_def table_def list_all_iff)

text \<open>
  C9. With headings that are not empty, \<open>fetchAll\<close> always produces one document, and
  the document is, each part separated from the next by a blank line: the header; the
  heading of the Frameworks section, the statistics section and the framework features;
  the heading of the Components section and one subsection for each descriptor, in the
  order of the registry; the "How to Make a Change" footer.
\<close>

theorem report_sections_in_order:
  assumes "\<And>t. h1 u t \<noteq> []" and "\<And>t. h2 u t \<noteq> []"
  shows "\<exists>stats features.
      frameworksSectionMarkdown u frameworks
         (indexBy html_url (compact (map (\<lambda>fw. getRepoInfo (repoURL fw)) frameworks))) = Inr stats
    \<and> frameworkFeaturesSectionMarkdown u frameworkInfo frameworks = Inr features
    \<and> fetchAll u componentInfo frameworkInfo frameworks getRepoInfo = Inr (
         headerMarkdown u
         @ ''\<newline>\<newline>'' @ h1 u ''Frameworks''
         @ ''\<newline>\<newline>'' @ stats
         @ ''\<newline>\<newline>'' @ features
         @ ''\<newline>\<newline>'' @ h1 u ''Components''
         @ concat (map (\<lambda>d. ''\<newline>\<newline>'' @ lines (sectionBlocks u frameworks d)) componentInfo)
         @ ''\<newline>\<newline>'' @ howToMakeAChange u)"
proof -
  let ?info = "indexBy html_url (compact (map (\<lambda>fw. getRepoInfo (repoURL fw)) frameworks))"
  obtain stats where stats: "frameworksSectionMarkdown u frameworks ?info = Inr stats"
    and stats_ne: "stats \<noteq> []"
    using frameworksSectionMarkdown_text [of u frameworks ?info] lines_nonempty_Cons [OF assms(2)]
    by blast
  obtain features where features: "frameworkFeaturesSectionMarkdown u frameworkInfo frameworks = Inr features"
    and features_ne: "features \<noteq> []"
    using frameworkFeaturesSectionMarkdown_text [of u frameworkInfo frameworks]
      lines_nonempty_Cons [OF assms(2)]
    by blast
  let ?fm = "lines [h1 u ''Frameworks'', stats, features]"
  let ?cm = "lines (h1 u ''Components'' # concat (map (sectionBlocks u frameworks) componentInfo))"
  have fm: "frameworksMarkdown u frameworkInfo frameworks ?info = Inr ?fm"
    by (simp add: frameworksMarkdown_def stats features)
  have cm: "componentsMarkdown u componentInfo frameworks = Inr ?cm"
    by (rule componentsMarkdown_blocks)
  have doc: "fetchAll u componentInfo frameworkInfo frameworks getRepoInfo
      = Inr (lines [headerMarkdown u, ?fm, ?cm, howToMakeAChange u])"
    unfolding fetchAll_def Let_def fm cm by simp
  have header_ne: "headerMarkdown u \<noteq> []"
    unfolding headerMarkdown_def by (rule lines_nonempty_Cons) (rule assms(1))
  have footer_ne: "howToMakeAChange u \<noteq> []"
    unfolding howToMakeAChange_def by (rule lines_nonempty_Cons) (rule assms(1))
  have fm_ne: "?fm \<noteq> []" by (rule lines_nonempty_Cons) (rule assms(1))
  have cm_ne: "?cm \<noteq> []" by (rule lines_nonempty_Cons) (rule assms(1))
  have fm_text: "?fm = h1 u ''Frameworks'' @ ''\<newline>\<newline>'' @ stats @ ''\<newline>\<newline>'' @ features"
    using assms(1) [of "''Frameworks''"] stats_ne features_ne
    by (simp add: lines_def)
  have sec_ne: "lines (sectionBlocks u frameworks d) \<noteq> []" for d
    unfolding sectionBlocks_def by (rule lines_nonempty_Cons) (rule assms(2))
  have "?cm = lines ([h1 u ''Components''] @ concat (map (sectionBlocks u frameworks) componentInfo))"
    by simp
  also have "\<dots> = lines [h1 u ''Components'']
       @ concat (map (\<lambda>d. ''\<newline>\<newline>'' @ lines (sectionBlocks u frameworks d)) componentInfo)"
    by (rule lines_sections [OF sec_ne]) (simp add: lines_single assms(1))
  finally have cm_text: "?cm = h1 u ''Components''
       @ concat (map (\<lambda>d. ''\<newline>\<newline>'' @ lines (sectionBlocks u frameworks d)) componentInfo)"
    by (simp add: lines_single)
  have "lines [headerMarkdown u, ?fm, ?cm, howToMakeAChange u]
      = headerMarkdown u @ ''\<newline>\<newline>'' @ ?fm @ ''\<newline>\<newline>'' @ ?cm
        @ ''\<newline>\<newline>'' @ howToMakeAChange u"
    using header_ne fm_ne cm_ne footer_ne by (simp add: lines_def)
  then have "fetchAll u componentInfo frameworkInfo frameworks getRepoInfo = Inr (
         headerMarkdown u
         @ ''\<newline>\<newline>'' @ h1 u ''Frameworks''
         @ ''\<newline>\<newline>'' @ stats
         @ ''\<newline>\<newline>'' @ features
         @ ''\<newline>\<newline>'' @ h1 u ''Components''
         @ concat (map (\<lambda>d. ''\<newline>\<newline>'' @ lines (sectionBlocks u frameworks d)) componentInfo)
         @ ''\<newline>\<newline>'' @ howToMakeAChange u)"
    unfolding doc fm_text cm_text by simp
  with stats features show ?thesis by blast
qed

theorem report_sections_in_order_witness:
  "(\<forall>t. h1 ex_env t \<noteq> []) \<and> (\<forall>t. h2 ex_env t \<noteq> [])
   \<and> (\<exists>stats features.
      frameworksSectionMarkdown ex_env ex_frameworks
         (indexBy html_url (compact (map (\<lambda>fw. None) ex_frameworks))) = Inr stats
    \<and> frameworkFeaturesSectionMarkdown ex_env [] ex_frameworks = Inr features
    \<and> fetchAll ex_env [ex_alert] [] ex_frameworks (\<lambda>url. None) = Inr (
         headerMarkdown ex_env
         @ ''\<newline>\<newline># Frameworks''
         @ ''\<newline>\<newline>'' @ stats
         @ ''\<newline>\<newline>'' @ features
         @ ''\<newline>\<newline># Components''
         @ ''\<newline>\<newline>'' @ lines (sectionBlocks ex_env ex_frameworks ex_alert)
         @ ''\<newline>\<newline>'' @ howToMakeAChange ex_env))"
proof -
  have a: "h1 ex_env t \<noteq> []" and b: "h2 ex_env t \<noteq> []" for t
    by (simp_all add: ex_env_def)
  have hd: "h1 ex_env ''Frameworks'' = ''# Frameworks''" "h1 ex_env ''Components'' = ''# Components''"
    by (simp_all add: ex_env_def)
  from report_sections_in_order [of ex_env ex_frameworks "\<lambda>url. None" "[]" "[ex_alert]", OF a b]
  have "\<exists>stats features.
      frameworksSectionMarkdown ex_env ex_frameworks
         (indexBy html_url (compact (map (\<lambda>fw. None) ex_frameworks))) = Inr stats
    \<and> frameworkFeaturesSectionMarkdown ex_env [] ex_frameworks = Inr features
    \<and> fetchAll ex_env [ex_alert] [] ex_frameworks (\<lambda>url. None) = Inr (
         headerMarkdown ex_env
         @ ''\<newline>\<newline># Frameworks''
         @ ''\<newline>\<newline>'' @ stats
         @ ''\<newline>\<newline>'' @ features
         @ ''\<newline>\<newline># Components''
         @ ''\<newline>\<newline>'' @ lines (sectionBlocks ex_env ex_frameworks ex_alert)
         @ ''\<newline>\<newline>'' @ howToMakeAChange ex_env)"
    unfolding hd by simp
  with a b show ?thesis by blast
qed

subsection \<open>The key of the stats lookup\<close>












end
